theory Spec2Isabelle
  imports Main "HOL-Library.Word" "HOL-Library.Char_ord" "HOL-Library.List_Lexorder"
begin

section \<open>Byte chunks, the line reader and the tokenizer\<close>

text \<open>
  A \<open>chunk_t\<close> (pointer and length) is the list of bytes it spans. A C string is the
  list of its bytes before the terminating NUL.
\<close>

type_synonym chunk = string

text \<open>
  Modelled from the spec: \<open>extract_token\<close> of the Line Tokenizer (utils/lexparser.c is not
  under src/). It splits at the first occurrence of the delimiter into the token before it and
  the remainder after it, and fails when the delimiter is absent.
\<close>

fun extract_token :: "char \<Rightarrow> chunk \<Rightarrow> (chunk \<times> chunk) option" where
  "extract_token termination [] = None"
| "extract_token termination (c # src) =
     (if c = termination then Some ([], src)
      else (case extract_token termination src of
              None \<Rightarrow> None
            | Some (token, rest) \<Rightarrow> Some (c # token, rest)))"

text \<open>
  Modelled from the spec: \<open>fetchline\<close> of the Log Reader (utils/lexparser.c is not under
  src/). The next-line operation returns the bytes up to the next newline and consumes them
  together with the newline; bytes after the last newline form the last line; the sequence
  ends when no bytes remain.
\<close>

definition fetchline :: "chunk \<Rightarrow> (chunk \<times> chunk) option" where
  "fetchline src =
     (if length src = 0 then None
      else (case extract_token (CHR 0x0A) src of
              Some (line, rest) \<Rightarrow> Some (line, rest)
            | None \<Rightarrow> Some (src, [])))"

text \<open>
  Modelled from the spec: \<open>match\<close> (utils/lexparser.c is not under src/): the keyword of a
  line is compared with a fixed keyword as a whole.
\<close>

definition match :: "string \<Rightarrow> chunk \<Rightarrow> bool" where
  "match pattern ch \<longleftrightarrow> ch = pattern"

text \<open>
  \<open>strcmp\<close> of the C library compares byte-wise with bytes as unsigned values; only its
  sign is specified, which is what the model returns. The order on \<open>string\<close> is the
  lexicographic one over the byte values.
\<close>

definition strcmp :: "string \<Rightarrow> string \<Rightarrow> int" where
  "strcmp s1 s2 = (if s1 < s2 then - 1 else if s1 = s2 then 0 else 1)"

section \<open>Constants and collaborators of sw-collector.c\<close>

definition EXIT_SUCCESS :: int where "EXIT_SUCCESS = 0"
definition EXIT_FAILURE :: int where "EXIT_FAILURE = 1"
definition FALSE :: int where "FALSE = 0"

datatype sw_collector_history_op = SW_OP_INSTALL | SW_OP_UPGRADE | SW_OP_REMOVE

text \<open>What the run writes to stderr with \<open>fprintf\<close>.\<close>

datatype stderr_line =
    Path_not_set
  | Opening_failed
  | Terminator_not_found
  | Added_events "32 word"

text \<open>
  The run is observed through the sequence of its stderr lines and of its calls to the
  state-changing methods of the database and of the history extractor, each call with its
  arguments and its result.
\<close>

datatype event =
    Stderr stderr_line
  | Add_event string "32 word"
  | Extract_packages chunk "32 word" sw_collector_history_op bool
  | Merge_installed_packages bool

text \<open>
  \<open>extract_history\<close> reaches everything outside of it through pointers: the settings
  (\<open>sw-collector.history\<close>), \<open>chunk_map\<close>, the global \<open>count\<close> set by \<open>--count\<close>, the
  methods of \<open>sw_collector_db_t\<close> and of \<open>sw_collector_history_t\<close>. They are the fields of
  the record below; \<open>'w\<close> is the state behind the \<open>db\<close> and \<open>history\<close> objects, passed
  through every method that may change it. A method returning \<open>bool\<close> with output
  parameters returns an option; \<open>add_event\<close> returns the new identifier, 0 on failure.
  \<open>sw_collector_history_create\<close> tells whether the extractor could be created (the
  operating system is supported). \<open>count\<close>, an \<open>int\<close>, is kept as its 32 bits:
  \<open>count > 0\<close> is the signed comparison, and in \<open>eid - last_eid == count\<close> the
  \<open>int\<close> is converted to the unsigned type of the difference, which keeps the bits.
\<close>

record 'w collector =
  history_path :: "string option"
  chunk_map :: "string \<Rightarrow> chunk option"
  count :: "32 word"
  sw_collector_history_create :: "'w \<Rightarrow> bool"
  get_last_event :: "'w \<Rightarrow> (32 word \<times> 32 word \<times> string) option"
  add_event :: "string \<Rightarrow> 'w \<Rightarrow> 32 word \<times> 'w"
  extract_timestamp :: "chunk \<Rightarrow> string option"
  extract_packages :: "chunk \<Rightarrow> 32 word \<Rightarrow> sw_collector_history_op \<Rightarrow> 'w \<Rightarrow> bool \<times> 'w"
  merge_installed_packages :: "'w \<Rightarrow> bool \<times> 'w"

section \<open>extract_history\<close>

text \<open>The local variables the loop changes, with the state behind \<open>db\<close> and the events so far.\<close>

record 'w scan =
  skip :: bool
  eid :: "32 word"
  db :: 'w
  trace :: "event list"

text \<open>An iteration either falls through to the next \<open>fetchline\<close> or jumps to \<open>end\<close>.\<close>

datatype 'a flow = Continue 'a | Goto_end 'a

text \<open>
  The call \<open>history->extract_packages(history, line, eid, op)\<close> with its
  \<open>goto end\<close> on failure, as the Install, Upgrade, Remove and Purge branches have it.
\<close>

definition packages_or_end ::
  "'w collector \<Rightarrow> chunk \<Rightarrow> sw_collector_history_op \<Rightarrow> 'w scan \<Rightarrow> 'w scan flow" where
  "packages_or_end E line op s =
     (case extract_packages E line (eid s) op (db s) of
        (ok, w') \<Rightarrow>
          (let s' = s\<lparr>db := w', trace := trace s @ [Extract_packages line (eid s) op ok]\<rparr>
           in if \<not> ok then Goto_end s' else Continue s'))"

text \<open>
  The body of the \<open>while\<close> loop, for the line that \<open>fetchline\<close> returned. The debug
  lines (\<open>DBG0\<close>, \<open>DBG1\<close>) are left out.
\<close>

definition scan_line ::
  "'w collector \<Rightarrow> 32 word \<Rightarrow> string \<Rightarrow> chunk \<Rightarrow> 'w scan \<Rightarrow> 'w scan flow" where
  "scan_line E last_eid last_time line0 s =
     (if length line0 = 0 then Continue s
      else (case extract_token CHR '':'' line0 of
        None \<Rightarrow> Goto_end (s\<lparr>trace := trace s @ [Stderr Terminator_not_found]\<rparr>)
      | Some (cmd, line) \<Rightarrow>
          if match ''Start-Date'' cmd then
            (case extract_timestamp E line of
               None \<Rightarrow> Goto_end s
             | Some rfc_time \<Rightarrow>
                 (let s1 = (if skip s \<and> strcmp rfc_time last_time > 0
                            then s\<lparr>skip := False\<rparr> else s)
                  in if skip s1 then Continue s1
                     else (case add_event E rfc_time (db s1) of
                        (new_eid, w') \<Rightarrow>
                          (let s2 = s1\<lparr>eid := new_eid, db := w',
                                       trace := trace s1 @ [Add_event rfc_time new_eid]\<rparr>
                           in if new_eid = 0 then Goto_end s2 else Continue s2))))
          else if skip s then Continue s
          else if match ''Install'' cmd then packages_or_end E line SW_OP_INSTALL s
          else if match ''Upgrade'' cmd then packages_or_end E line SW_OP_UPGRADE s
          else if match ''Remove'' cmd then packages_or_end E line SW_OP_REMOVE s
          else if match ''Purge'' cmd then packages_or_end E line SW_OP_REMOVE s
          else if match ''End-Date'' cmd then
            (if 0 <s count E \<and> eid s - last_eid = count E
             then Goto_end (s\<lparr>trace := trace s @ [Stderr (Added_events (count E))]\<rparr>)
             else Continue s)
          else Continue s))"

lemma extract_token_shorter:
  "extract_token t src = Some (tok, rest) \<Longrightarrow> length rest < length src"
  by (induction src arbitrary: tok) (auto split: if_splits option.splits)

lemma fetchline_shorter:
  "fetchline src = Some (line, rest) \<Longrightarrow> length rest < length src"
  by (auto simp: fetchline_def split: if_splits option.splits dest: extract_token_shorter)

text \<open>The loop \<open>while (fetchline(&history_chunk, &line))\<close>.\<close>

function parse_history ::
  "'w collector \<Rightarrow> 32 word \<Rightarrow> string \<Rightarrow> chunk \<Rightarrow> 'w scan \<Rightarrow> 'w scan flow" where
  "parse_history E last_eid last_time history_chunk s =
     (case fetchline history_chunk of
        None \<Rightarrow> Continue s
      | Some (line, rest) \<Rightarrow>
          (case scan_line E last_eid last_time line s of
             Goto_end s' \<Rightarrow> Goto_end s'
           | Continue s' \<Rightarrow> parse_history E last_eid last_time rest s'))"
  by pat_completeness auto
termination
  by (relation "measure (\<lambda>(E, last_eid, last_time, history_chunk, s). length history_chunk)")
     (auto dest: fetchline_shorter)

text \<open>What the run returns to \<open>main\<close>, the state it leaves behind and what it did.\<close>

record 'w outcome =
  status :: int
  final_db :: 'w
  journal :: "event list"

text \<open>
  \<open>extract_history\<close>: the two early \<open>return FALSE\<close>, then \<open>status\<close>, which starts as
  \<open>EXIT_FAILURE\<close> and is set to \<open>EXIT_SUCCESS\<close> only after the loop has ended by itself and
  \<open>merge_installed_packages\<close> has succeeded.
\<close>

definition extract_history :: "'w collector \<Rightarrow> 'w \<Rightarrow> 'w outcome" where
  "extract_history E w =
     (case history_path E of
        None \<Rightarrow> \<lparr>status = FALSE, final_db = w, journal = [Stderr Path_not_set]\<rparr>
      | Some path \<Rightarrow>
          (case chunk_map E path of
             None \<Rightarrow> \<lparr>status = FALSE, final_db = w, journal = [Stderr Opening_failed]\<rparr>
           | Some history_chunk \<Rightarrow>
               if \<not> sw_collector_history_create E w
               then \<lparr>status = EXIT_FAILURE, final_db = w, journal = []\<rparr>
               else (case get_last_event E w of
                  None \<Rightarrow> \<lparr>status = EXIT_FAILURE, final_db = w, journal = []\<rparr>
                | Some (last_eid, epoch, last_time) \<Rightarrow>
                    if last_eid = 0
                    then \<lparr>status = EXIT_FAILURE, final_db = w, journal = []\<rparr>
                    else (case parse_history E last_eid last_time history_chunk
                                 \<lparr>skip = True, eid = 0, db = w, trace = []\<rparr> of
                       Goto_end s \<Rightarrow>
                         \<lparr>status = EXIT_FAILURE, final_db = db s, journal = trace s\<rparr>
                     | Continue s \<Rightarrow>
                         (case merge_installed_packages E (db s) of
                            (ok, w') \<Rightarrow>
                              \<lparr>status = (if ok then EXIT_SUCCESS else EXIT_FAILURE),
                               final_db = w',
                               journal = trace s @ [Merge_installed_packages ok]\<rparr>)))))"

declare parse_history.simps [simp del]

section \<open>The log as the sequence of its lines\<close>

text \<open>The lines that successive calls of \<open>fetchline\<close> return.\<close>

function fetchlines :: "chunk \<Rightarrow> chunk list" where
  "fetchlines src =
     (case fetchline src of
        None \<Rightarrow> []
      | Some (line, rest) \<Rightarrow> line # fetchlines rest)"
  by pat_completeness auto
termination
  by (relation "measure length") (auto dest: fetchline_shorter)

declare fetchlines.simps [simp del]

text \<open>The loop body iterated over a list of lines, stopping at the first \<open>goto end\<close>.\<close>

fun scan_lines ::
  "'w collector \<Rightarrow> 32 word \<Rightarrow> string \<Rightarrow> chunk list \<Rightarrow> 'w scan \<Rightarrow> 'w scan flow" where
  "scan_lines E last_eid last_time [] s = Continue s"
| "scan_lines E last_eid last_time (line # ls) s =
     (case scan_line E last_eid last_time line s of
        Goto_end s' \<Rightarrow> Goto_end s'
      | Continue s' \<Rightarrow> scan_lines E last_eid last_time ls s')"

text \<open>The state in which an iteration or a loop ended, whichever way it ended.\<close>

fun state_of :: "'a flow \<Rightarrow> 'a" where
  "state_of (Continue s) = s"
| "state_of (Goto_end s) = s"

definition initial :: "'w \<Rightarrow> 'w scan" where
  "initial w = \<lparr>skip = True, eid = 0, db = w, trace = []\<rparr>"

section \<open>Observations on a run\<close>

text \<open>
  The run got as far as the loop: the history path is configured, the file is mapped to
  \<open>h\<close>, the extractor exists and the Cursor \<open>(last_eid, epoch, last_time)\<close> was read with
  a nonzero identifier.
\<close>

definition opened ::
  "'w collector \<Rightarrow> 'w \<Rightarrow> string \<Rightarrow> chunk \<Rightarrow> 32 word \<Rightarrow> 32 word \<Rightarrow> string \<Rightarrow> bool" where
  "opened E w path h last_eid epoch last_time \<longleftrightarrow>
     history_path E = Some path \<and> chunk_map E path = Some h \<and>
     sw_collector_history_create E w \<and>
     get_last_event E w = Some (last_eid, epoch, last_time) \<and> last_eid \<noteq> 0"

fun is_merge :: "event \<Rightarrow> bool" where
  "is_merge (Merge_installed_packages ok) = True"
| "is_merge e = False"

text \<open>
  The normalized timestamp of a line whose keyword is the start marker, when
  \<open>extract_timestamp\<close> accepts its remainder; the timestamps of a log in file order.
\<close>

definition start_date_of :: "'w collector \<Rightarrow> chunk \<Rightarrow> string option" where
  "start_date_of E line0 =
     (case extract_token CHR '':'' line0 of
        None \<Rightarrow> None
      | Some (cmd, line) \<Rightarrow>
          if match ''Start-Date'' cmd then extract_timestamp E line else None)"


text \<open>
  Reading a journal from its start: the identifier that the latest \<open>add_event\<close>
  returned (\<open>c\<close> before the first), and whether every \<open>extract_packages\<close> was called
  with that identifier and the identifier was not 0.
\<close>

fun current :: "32 word \<Rightarrow> event list \<Rightarrow> 32 word" where
  "current c [] = c"
| "current c (Add_event t i # es) = current i es"
| "current c (e # es) = current c es"

fun attached :: "32 word \<Rightarrow> event list \<Rightarrow> bool" where
  "attached c [] = True"
| "attached c (Add_event t i # es) = attached i es"
| "attached c (Extract_packages args i op ok # es) = (i \<noteq> 0 \<and> i = c \<and> attached c es)"
| "attached c (e # es) = attached c es"

fun failed_commit :: "event \<Rightarrow> bool" where
  "failed_commit (Add_event t i) = (i = 0)"
| "failed_commit e = False"

text \<open>
  The loop invariant behind the attachment of package events: outside of skipping,
  \<open>eid\<close> is the nonzero identifier of the latest commit, and no commit has failed so far.
  A journal is well attached when a failed commit can only be its last event.
\<close>

definition committed :: "'w scan \<Rightarrow> bool" where
  "committed s \<longleftrightarrow>
     (\<not> skip s \<longrightarrow> eid s \<noteq> 0 \<and> current 0 (trace s) = eid s) \<and>
     attached 0 (trace s) \<and> (\<forall>e \<in> set (trace s). \<not> failed_commit e)"

definition well_attached :: "event list \<Rightarrow> bool" where
  "well_attached es \<longleftrightarrow> attached 0 es \<and> (\<forall>e \<in> set (butlast es). \<not> failed_commit e)"






section \<open>A reference installation\<close>

text \<open>
  Modelled from the spec: the persistence collaborator (sw_collector_db.c is not under src/).
  The store holds the transactions (identifier and timestamp, oldest first; the epoch is fixed),
  the package events keyed by transaction identifier, and the inventory. \<open>get_last_event\<close>
  returns the Cursor, the last committed transaction, or none; \<open>add_event\<close> commits a
  transaction under the next identifier and returns it, 0 on failure.
\<close>

record store =
  transactions :: "(32 word \<times> string) list"
  package_events :: "(32 word \<times> sw_collector_history_op \<times> chunk) list"
  inventory :: "(chunk \<times> bool) list"

definition store_get_last_event :: "store \<Rightarrow> (32 word \<times> 32 word \<times> string) option" where
  "store_get_last_event w =
     (case rev (transactions w) of
        [] \<Rightarrow> None
      | (i, t) # _ \<Rightarrow> Some (i, 1, t))"

definition store_add_event :: "string \<Rightarrow> store \<Rightarrow> 32 word \<times> store" where
  "store_add_event t w =
     (let i = (case rev (transactions w) of [] \<Rightarrow> 1 | (j, _) # _ \<Rightarrow> j + 1)
      in if i = 0 then (0, w)
         else (i, w\<lparr>transactions := transactions w @ [(i, t)]\<rparr>))"

text \<open>
  Modelled from the spec: the Event Extractor (sw_collector_history.c is not under src/), as
  far as the Synchronizer depends on it. A timestamp is the remainder without its leading
  blanks and is accepted when it has the fixed width of 20 characters that \<open>rfc_time[21]\<close>
  holds; a package payload is stored as one package event under the transaction identifier
  and is rejected when it is empty; the reconciliation sets the installed flag of every
  payload from its events in order and does not fail.
\<close>

definition ref_extract_timestamp :: "chunk \<Rightarrow> string option" where
  "ref_extract_timestamp args =
     (let t = dropWhile (\<lambda>c. c = CHR '' '') args
      in if length t = 20 then Some t else None)"

definition ref_extract_packages ::
  "chunk \<Rightarrow> 32 word \<Rightarrow> sw_collector_history_op \<Rightarrow> store \<Rightarrow> bool \<times> store" where
  "ref_extract_packages args i op w =
     (let p = dropWhile (\<lambda>c. c = CHR '' '') args
      in if p = [] then (False, w)
         else (True, w\<lparr>package_events := package_events w @ [(i, op, p)]\<rparr>))"

fun upsert :: "chunk \<Rightarrow> bool \<Rightarrow> (chunk \<times> bool) list \<Rightarrow> (chunk \<times> bool) list" where
  "upsert k v [] = [(k, v)]"
| "upsert k v ((k', v') # kvs) =
     (if k = k' then (k, v) # kvs else (k', v') # upsert k v kvs)"

definition ref_merge_installed_packages :: "store \<Rightarrow> bool \<times> store" where
  "ref_merge_installed_packages w =
     (True, w\<lparr>inventory :=
        foldl (\<lambda>inv (i, op, p). upsert p (op \<noteq> SW_OP_REMOVE) inv) (inventory w)
          (package_events w)\<rparr>)"

text \<open>
  The installation: the history log at \<open>path\<close> with content \<open>log\<close>, no other file, and
  the event-count budget \<open>n\<close> (0 when \<open>--count\<close> is not given).
\<close>

definition installation :: "string \<Rightarrow> chunk \<Rightarrow> 32 word \<Rightarrow> store collector" where
  "installation path log n =
     \<lparr>history_path = Some path,
      chunk_map = (\<lambda>p. if p = path \<and> log \<noteq> [] then Some log else None),
      count = n,
      sw_collector_history_create = (\<lambda>w. True),
      get_last_event = store_get_last_event,
      add_event = store_add_event,
      extract_timestamp = ref_extract_timestamp,
      extract_packages = ref_extract_packages,
      merge_installed_packages = ref_merge_installed_packages\<rparr>"

text \<open>Lines are joined into a log file with a newline after each.\<close>

definition file_of :: "chunk list \<Rightarrow> chunk" where
  "file_of ls = concat (map (\<lambda>l. l @ [CHR 0x0A]) ls)"

text \<open>
  Stores and logs on which the properties below are exercised: a store whose Cursor is
  transaction 1 of 1 January 2017, an empty store, and a store whose only transaction has
  identifier 0; a log in chronological order with one transaction at the Cursor and two after
  it; a log with four transactions after the Cursor; a log whose second transaction is older
  than its first and than the Cursor; a log whose two transactions have the same timestamp;
  a log with a line without colon; a log with a start marker that carries no timestamp; and
  an installation whose settings lack the history path.
\<close>

definition store0 :: store where
  "store0 = \<lparr>transactions = [(1, ''2017-01-01T00:00:00Z'')], package_events = [], inventory = []\<rparr>"

definition empty_store :: store where
  "empty_store = \<lparr>transactions = [], package_events = [], inventory = []\<rparr>"

definition unnumbered_store :: store where
  "unnumbered_store =
     \<lparr>transactions = [(0, ''2017-01-01T00:00:00Z'')], package_events = [], inventory = []\<rparr>"

definition ordered_log :: chunk where
  "ordered_log = file_of
     [''Start-Date: 2017-01-01T00:00:00Z'', ''Install: old (1)'', ''End-Date: x'', '''',
      ''Start-Date: 2017-02-01T00:00:00Z'', ''Install: a (1)'', ''End-Date: x'', '''',
      ''Start-Date: 2017-03-01T00:00:00Z'', ''Purge: a (1)'', ''End-Date: x'']"

definition four_new_log :: chunk where
  "four_new_log = file_of
     [''Start-Date: 2017-02-01T00:00:00Z'', ''Install: a (1)'', ''End-Date: x'',
      ''Start-Date: 2017-03-01T00:00:00Z'', ''Install: b (1)'', ''End-Date: x'',
      ''Start-Date: 2017-04-01T00:00:00Z'', ''Upgrade: a (1, 2)'', ''End-Date: x'',
      ''Start-Date: 2017-05-01T00:00:00Z'', ''Remove: b (1)'', ''End-Date: x'']"



definition broken_log :: chunk where
  "broken_log = file_of
     [''Start-Date: 2017-02-01T00:00:00Z'', ''Install: a (1)'', ''garbage'',
      ''Start-Date: 2017-03-01T00:00:00Z'']"

definition undated_log :: chunk where
  "undated_log = file_of
     [''Start-Date: 2016-12-01T00:00:00Z'', ''Install: old (1)'',
      ''Start-Date: yesterday'', ''Install: older (1)'']"

definition ordered_run :: "store collector" where
  "ordered_run = installation ''/var/log/apt/history.log'' ordered_log 0"

definition batch_run :: "store collector" where
  "batch_run = installation ''/var/log/apt/history.log'' four_new_log 2"



definition unconfigured_run :: "store collector" where
  "unconfigured_run = ordered_run\<lparr>history_path := None\<rparr>"

definition broken_run :: "store collector" where
  "broken_run = installation ''/var/log/apt/history.log'' broken_log 0"

definition undated_run :: "store collector" where
  "undated_run = installation ''/var/log/apt/history.log'' undated_log 0"

section \<open>Properties of the lexer and of one iteration\<close>

lemma parse_history_lines:
  "parse_history E last_eid last_time h s = scan_lines E last_eid last_time (fetchlines h) s"
proof (induction h arbitrary: s rule: fetchlines.induct)
  case (1 src)
  show ?case
  proof (cases "fetchline src")
    case None
    then show ?thesis
      by (simp add: parse_history.simps [of _ _ _ src] fetchlines.simps [of src])
  next
    case (Some a)
    obtain line rest where a: "a = (line, rest)" by (cases a)
    show ?thesis
    proof (cases "scan_line E last_eid last_time line s")
      case (Continue s')
      with Some a "1.IH" [of "(line, rest)" line rest s'] show ?thesis
        by (simp add: parse_history.simps [of _ _ _ src] fetchlines.simps [of src])
    next
      case (Goto_end s')
      with Some a show ?thesis
        by (simp add: parse_history.simps [of _ _ _ src] fetchlines.simps [of src])
    qed
  qed
qed

lemma scan_lines_append:
  "scan_lines E le lt (xs @ ys) s =
     (case scan_lines E le lt xs s of
        Goto_end s' \<Rightarrow> Goto_end s'
      | Continue s' \<Rightarrow> scan_lines E le lt ys s')"
  by (induction xs arbitrary: s) (auto split: flow.splits)

lemma extract_token_absent: "t \<notin> set src \<Longrightarrow> extract_token t src = None"
  by (induction src) auto

lemma strcmp_pos: "0 < strcmp a b \<longleftrightarrow> b < a"
  by (auto simp: strcmp_def)

lemma extract_history_opened:
  assumes "opened E w path h last_eid epoch last_time"
  shows "extract_history E w =
     (case scan_lines E last_eid last_time (fetchlines h) (initial w) of
        Goto_end s \<Rightarrow> \<lparr>status = EXIT_FAILURE, final_db = db s, journal = trace s\<rparr>
      | Continue s \<Rightarrow>
          \<lparr>status = (if fst (merge_installed_packages E (db s)) then EXIT_SUCCESS else EXIT_FAILURE),
           final_db = snd (merge_installed_packages E (db s)),
           journal = trace s @ [Merge_installed_packages (fst (merge_installed_packages E (db s)))]\<rparr>)"
  using assms
  by (simp add: opened_def extract_history_def parse_history_lines initial_def
           split: flow.splits prod.splits)

lemma extract_history_unopened:
  assumes "\<not> (\<exists>path h le ep lt. opened E w path h le ep lt)"
  shows "journal (extract_history E w) = [] \<or>
         journal (extract_history E w) = [Stderr Path_not_set] \<or>
         journal (extract_history E w) = [Stderr Opening_failed]"
  using assms by (auto simp: opened_def extract_history_def split: option.splits)

lemma scan_line_empty: "scan_line E le lt [] s = Continue s"
  by (simp add: scan_line_def)

lemma scan_line_no_terminator:
  "l \<noteq> [] \<Longrightarrow> extract_token CHR '':'' l = None \<Longrightarrow>
   scan_line E le lt l s = Goto_end (s\<lparr>trace := trace s @ [Stderr Terminator_not_found]\<rparr>)"
  by (simp add: scan_line_def)

lemma scan_line_start:
  "extract_token CHR '':'' l = Some (''Start-Date'', args) \<Longrightarrow>
   scan_line E le lt l s =
     (case extract_timestamp E args of
        None \<Rightarrow> Goto_end s
      | Some u \<Rightarrow>
          if skip s \<and> \<not> lt < u then Continue s
          else (case add_event E u (db s) of
            (i, w') \<Rightarrow>
              if i = 0
              then Goto_end (s\<lparr>skip := False, eid := i, db := w',
                              trace := trace s @ [Add_event u i]\<rparr>)
              else Continue (s\<lparr>skip := False, eid := i, db := w',
                               trace := trace s @ [Add_event u i]\<rparr>)))"
  by (cases "l = []"; cases "skip s")
     (simp_all add: scan_line_def match_def strcmp_pos Let_def split: option.splits prod.splits)

lemma scan_line_keyword:
  "extract_token CHR '':'' l = Some (cmd, args) \<Longrightarrow> cmd \<noteq> ''Start-Date'' \<Longrightarrow>
   scan_line E le lt l s =
     (if skip s then Continue s
      else if cmd = ''Install'' then packages_or_end E args SW_OP_INSTALL s
      else if cmd = ''Upgrade'' then packages_or_end E args SW_OP_UPGRADE s
      else if cmd = ''Remove'' then packages_or_end E args SW_OP_REMOVE s
      else if cmd = ''Purge'' then packages_or_end E args SW_OP_REMOVE s
      else if cmd = ''End-Date'' \<and> 0 <s count E \<and> eid s - le = count E
      then Goto_end (s\<lparr>trace := trace s @ [Stderr (Added_events (count E))]\<rparr>)
      else Continue s)"
  by (cases "l = []") (simp_all add: scan_line_def match_def)

lemma start_date_of_nonempty: "start_date_of E l = Some u \<Longrightarrow> l \<noteq> []"
  by (auto simp: start_date_of_def)

lemma scan_line_start_date:
  assumes "start_date_of E l = Some u"
  shows "scan_line E le lt l s =
     (if skip s \<and> \<not> lt < u then Continue s
      else (case add_event E u (db s) of
        (i, w') \<Rightarrow>
          if i = 0
          then Goto_end (s\<lparr>skip := False, eid := i, db := w', trace := trace s @ [Add_event u i]\<rparr>)
          else Continue (s\<lparr>skip := False, eid := i, db := w', trace := trace s @ [Add_event u i]\<rparr>)))"
proof -
  from assms obtain args where "extract_token CHR '':'' l = Some (''Start-Date'', args)"
    and "extract_timestamp E args = Some u"
    by (auto simp: start_date_of_def match_def split: option.splits if_splits)
  then show ?thesis by (simp add: scan_line_start)
qed

lemma packages_or_end_trace:
  "trace (state_of (packages_or_end E args op s)) =
     trace s @ [Extract_packages args (eid s) op (fst (extract_packages E args (eid s) op (db s)))]"
  by (simp add: packages_or_end_def Let_def split: prod.splits)


lemma scan_line_other_skipping:
  assumes "start_date_of E l = None" and "skip s"
  shows "scan_line E le lt l s = Continue s \<or> scan_line E le lt l s = Goto_end s \<or>
         scan_line E le lt l s = Goto_end (s\<lparr>trace := trace s @ [Stderr Terminator_not_found]\<rparr>)"
proof (cases "l = []")
  case True
  then show ?thesis by (simp add: scan_line_empty)
next
  case False
  show ?thesis
  proof (cases "extract_token CHR '':'' l")
    case None
    with False show ?thesis by (simp add: scan_line_no_terminator)
  next
    case (Some a)
    obtain cmd args where a: "a = (cmd, args)" by (cases a)
    show ?thesis
    proof (cases "cmd = ''Start-Date''")
      case True
      with Some a assms(1) have "extract_timestamp E args = None"
        by (simp add: start_date_of_def match_def)
      with Some a True show ?thesis by (simp add: scan_line_start)
    next
      case False
      with Some a assms(2) show ?thesis by (simp add: scan_line_keyword)
    qed
  qed
qed

text \<open>
  What a line that is no accepted start marker can do while the run is past the Cursor.
\<close>

lemma scan_line_other_cases:
  assumes "start_date_of E l = None" and "\<not> skip s"
  shows "scan_line E le lt l s = Continue s \<or> scan_line E le lt l s = Goto_end s \<or>
         scan_line E le lt l s = Goto_end (s\<lparr>trace := trace s @ [Stderr Terminator_not_found]\<rparr>) \<or>
         scan_line E le lt l s = Goto_end (s\<lparr>trace := trace s @ [Stderr (Added_events (count E))]\<rparr>) \<or>
         (\<exists>args op. scan_line E le lt l s = packages_or_end E args op s)"
proof (cases "l = []")
  case True
  then show ?thesis by (simp add: scan_line_empty)
next
  case False
  show ?thesis
  proof (cases "extract_token CHR '':'' l")
    case None
    with False show ?thesis by (simp add: scan_line_no_terminator)
  next
    case (Some a)
    obtain cmd args where a: "a = (cmd, args)" by (cases a)
    show ?thesis
    proof (cases "cmd = ''Start-Date''")
      case True
      with Some a assms(1) have "extract_timestamp E args = None"
        by (simp add: start_date_of_def match_def)
      with Some a True show ?thesis by (simp add: scan_line_start)
    next
      case False
      with Some a assms(2) have
        "scan_line E le lt l s =
           (if cmd = ''Install'' then packages_or_end E args SW_OP_INSTALL s
            else if cmd = ''Upgrade'' then packages_or_end E args SW_OP_UPGRADE s
            else if cmd = ''Remove'' then packages_or_end E args SW_OP_REMOVE s
            else if cmd = ''Purge'' then packages_or_end E args SW_OP_REMOVE s
            else if cmd = ''End-Date'' \<and> 0 <s count E \<and> eid s - le = count E
            then Goto_end (s\<lparr>trace := trace s @ [Stderr (Added_events (count E))]\<rparr>)
            else Continue s)"
        by (simp add: scan_line_keyword)
      then show ?thesis by (metis (full_types))
    qed
  qed
qed





section \<open>Invariants of the loop\<close>

subsection \<open>The reconciliation is not called inside the loop\<close>

lemma scan_line_extends:
  "\<exists>evs. trace (state_of (scan_line E le lt l s)) = trace s @ evs \<and>
         (\<forall>e \<in> set evs. \<not> is_merge e)"
  by (auto simp: scan_line_def Let_def packages_or_end_trace
           split: option.splits prod.splits)

lemma scan_lines_extends:
  "\<exists>evs. trace (state_of (scan_lines E le lt ls s)) = trace s @ evs \<and>
         (\<forall>e \<in> set evs. \<not> is_merge e)"
proof (induction ls arbitrary: s)
  case Nil
  then show ?case by simp
next
  case (Cons l ls)
  obtain evs where 1: "trace (state_of (scan_line E le lt l s)) = trace s @ evs"
    and 2: "\<forall>e \<in> set evs. \<not> is_merge e"
    using scan_line_extends by blast
  show ?case
  proof (cases "scan_line E le lt l s")
    case (Continue s')
    obtain evs' where 3: "trace (state_of (scan_lines E le lt ls s')) = trace s' @ evs'"
      and 4: "\<forall>e \<in> set evs'. \<not> is_merge e"
      using Cons.IH by blast
    from Continue 1 2 3 4 show ?thesis
      by (intro exI [of _ "evs @ evs'"]) auto
  next
    case (Goto_end s')
    with 1 2 show ?thesis by auto
  qed
qed

lemma scan_lines_no_merge:
  "filter is_merge (trace (state_of (scan_lines E le lt ls (initial w)))) = []"
  using scan_lines_extends [of E le lt ls "initial w"]
  by (auto simp: initial_def filter_empty_conv)

subsection \<open>Package events and the current transaction\<close>

lemma current_append: "current c (xs @ ys) = current (current c xs) ys"
  by (induction c xs rule: current.induct) auto

lemma attached_append:
  "attached c (xs @ ys) \<longleftrightarrow> attached c xs \<and> attached (current c xs) ys"
  by (induction c xs rule: attached.induct) auto

lemma current_origin:
  "current c xs = c \<or> (\<exists>t. Add_event t (current c xs) \<in> set xs)"
  by (induction c xs rule: current.induct) auto

lemma well_attached_all:
  "attached 0 es \<Longrightarrow> \<forall>e \<in> set es. \<not> failed_commit e \<Longrightarrow> well_attached es"
  by (auto simp: well_attached_def dest: in_set_butlastD)

lemma well_attached_snoc:
  "attached 0 (es @ [x]) \<Longrightarrow> \<forall>e \<in> set es. \<not> failed_commit e \<Longrightarrow> well_attached (es @ [x])"
  by (simp add: well_attached_def)

lemma committed_step:
  assumes "committed s"
  shows "(case scan_line E le lt l s of
            Continue s' \<Rightarrow> committed s'
          | Goto_end s' \<Rightarrow> well_attached (trace s'))"
proof -
  from assms have a: "attached 0 (trace s)" and f: "\<forall>e \<in> set (trace s). \<not> failed_commit e"
    and c: "\<not> skip s \<Longrightarrow> eid s \<noteq> 0 \<and> current 0 (trace s) = eid s"
    by (simp_all add: committed_def)
  have same: "well_attached (trace s)" using a f by (rule well_attached_all)
  have err: "well_attached (trace s @ [Stderr m])" for m
    using a f by (intro well_attached_snoc) (simp_all add: attached_append)
  show ?thesis
  proof (cases "start_date_of E l")
    case (Some u)
    have "well_attached (trace s @ [Add_event u i])" for i
      using a f by (intro well_attached_snoc) (simp_all add: attached_append)
    with assms show ?thesis
      by (simp add: scan_line_start_date [OF Some] committed_def attached_append
                    current_append split: prod.splits)
  next
    case None
    show ?thesis
    proof (cases "skip s")
      case True
      with scan_line_other_skipping [OF None True, of le lt] assms same err show ?thesis
        by auto
    next
      case False
      from scan_line_other_cases [OF None False, of le lt]
      consider "scan_line E le lt l s = Continue s" | "scan_line E le lt l s = Goto_end s"
        | "scan_line E le lt l s = Goto_end (s\<lparr>trace := trace s @ [Stderr Terminator_not_found]\<rparr>)"
        | "scan_line E le lt l s = Goto_end (s\<lparr>trace := trace s @ [Stderr (Added_events (count E))]\<rparr>)"
        | args op where "scan_line E le lt l s = packages_or_end E args op s"
        by blast
      then show ?thesis
      proof cases
        case 5
        have "well_attached (trace s @ [Extract_packages args (eid s) op ok])" for ok
          using a f c [OF False] by (intro well_attached_snoc) (simp_all add: attached_append)
        with 5 assms False show ?thesis
          by (simp add: packages_or_end_def Let_def committed_def attached_append
                        current_append split: prod.splits)
      qed (use assms same err in simp_all)
    qed
  qed
qed

lemma committed_lines:
  "committed s \<Longrightarrow>
   (case scan_lines E le lt ls s of
      Continue s' \<Rightarrow> committed s'
    | Goto_end s' \<Rightarrow> well_attached (trace s'))"
proof (induction ls arbitrary: s)
  case Nil
  then show ?case by simp
next
  case (Cons l ls)
  from committed_step [OF Cons.prems, of E le lt l] Cons.IH show ?case
    by (cases "scan_line E le lt l s") auto
qed

lemma committed_initial: "committed (initial w)"
  by (simp add: committed_def initial_def)

lemma well_attached_journal: "well_attached (journal (extract_history E w))"
proof (cases "\<exists>path h le ep lt. opened E w path h le ep lt")
  case True
  then obtain path h le ep lt where op: "opened E w path h le ep lt" by blast
  show ?thesis
  proof (cases "scan_lines E le lt (fetchlines h) (initial w)")
    case (Continue s)
    with committed_lines [OF committed_initial, of E le lt "fetchlines h" w]
    have "committed s" by simp
    then have "well_attached (trace s @ [Merge_installed_packages ok])" for ok
      by (intro well_attached_snoc) (simp_all add: committed_def attached_append)
    with Continue show ?thesis by (simp add: extract_history_opened [OF op])
  next
    case (Goto_end s)
    with committed_lines [OF committed_initial, of E le lt "fetchlines h" w]
    show ?thesis by (simp add: extract_history_opened [OF op])
  qed
next
  case False
  from extract_history_unopened [OF False] show ?thesis
    by (auto simp: well_attached_def)
qed

subsection \<open>Commits and the Cursor in a chronological log\<close>












section \<open>The claims\<close>

subsection \<open>C1: the event-count budget\<close>

text \<open>
  C1. With the budget \<open>count = 2\<close> and four transactions after the Cursor, each closed by
  an end marker, the run commits exactly two transactions and stops at the second end marker
  before it reads the third transaction, as the claim says. It stops through
  \<open>goto end\<close>, though: \<open>status\<close> is still \<open>EXIT_FAILURE\<close> and the final
  reconciliation is not called (the inventory stays empty), so the run is reported as a
  failure and not as the success that the claim states.
\<close>

theorem count_limited_stop_returns_failure:
  "status (extract_history batch_run store0) = EXIT_FAILURE \<and>
   journal (extract_history batch_run store0) =
     [Add_event ''2017-02-01T00:00:00Z'' 2, Extract_packages '' a (1)'' 2 SW_OP_INSTALL True,
      Add_event ''2017-03-01T00:00:00Z'' 3, Extract_packages '' b (1)'' 3 SW_OP_INSTALL True,
      Stderr (Added_events 2)] \<and>
   inventory (final_db (extract_history batch_run store0)) = [] \<and>
   EXIT_FAILURE \<noteq> EXIT_SUCCESS"
  by code_simp

subsection \<open>C2: the log that cannot be opened\<close>

text \<open>
  C2. When the history path is not configured, or the file cannot be mapped, the run stops
  before any call to the database or to the extractor and leaves the state as it was. What it
  returns is \<open>FALSE\<close>, which is the number \<open>EXIT_SUCCESS\<close>: the caller, which passes the
  value to \<open>exit\<close>, sees a success and not the error result that the claim asks for.
\<close>

theorem extract_history_unopened_log_returns_success:
  "extract_history (E\<lparr>history_path := None\<rparr>) w =
     \<lparr>status = EXIT_SUCCESS, final_db = w, journal = [Stderr Path_not_set]\<rparr> \<and>
   extract_history (E\<lparr>history_path := Some path, chunk_map := (\<lambda>p. None)\<rparr>) w =
     \<lparr>status = EXIT_SUCCESS, final_db = w, journal = [Stderr Opening_failed]\<rparr> \<and>
   EXIT_SUCCESS \<noteq> EXIT_FAILURE"
  by (simp add: extract_history_def FALSE_def EXIT_SUCCESS_def EXIT_FAILURE_def)

subsection \<open>C3: commits are newer than the Cursor\<close>




subsection \<open>C4: the second run over an unchanged log\<close>




subsection \<open>C5: the final reconciliation\<close>

text \<open>
  C5. When the loop ends because the log has no further line, the run calls
  \<open>merge_installed_packages\<close> on the state the loop left, and this is the only call of
  it in the whole run; the run returns \<open>EXIT_SUCCESS\<close> if and only if that call
  succeeds, and \<open>EXIT_FAILURE\<close> when it fails.
\<close>

theorem merge_once_at_end_of_file:
  assumes "opened E w path h last_eid epoch last_time"
    and "parse_history E last_eid last_time h (initial w) = Continue s"
  shows "journal (extract_history E w) =
           trace s @ [Merge_installed_packages (fst (merge_installed_packages E (db s)))] \<and>
         length (filter is_merge (journal (extract_history E w))) = 1 \<and>
         final_db (extract_history E w) = snd (merge_installed_packages E (db s)) \<and>
         (status (extract_history E w) = EXIT_SUCCESS \<longleftrightarrow>
            fst (merge_installed_packages E (db s))) \<and>
         (\<not> fst (merge_installed_packages E (db s)) \<longrightarrow>
            status (extract_history E w) = EXIT_FAILURE)"
proof -
  from assms(2) have c: "scan_lines E last_eid last_time (fetchlines h) (initial w) = Continue s"
    by (simp add: parse_history_lines)
  from scan_lines_no_merge [of E last_eid last_time "fetchlines h" w] c
  have "filter is_merge (trace s) = []" by simp
  with c show ?thesis
    by (simp add: extract_history_opened [OF assms(1)] EXIT_SUCCESS_def EXIT_FAILURE_def)
qed

text \<open>
  C5 on the chronological log: one reconciliation, at the end, and success.
\<close>

theorem merge_once_at_end_of_file_witness:
  "opened ordered_run store0 ''/var/log/apt/history.log'' ordered_log 1 1 ''2017-01-01T00:00:00Z'' \<and>
   parse_history ordered_run 1 ''2017-01-01T00:00:00Z'' ordered_log (initial store0) =
     Continue (state_of (parse_history ordered_run 1 ''2017-01-01T00:00:00Z'' ordered_log
                           (initial store0))) \<and>
   length (filter is_merge (journal (extract_history ordered_run store0))) = 1 \<and>
   status (extract_history ordered_run store0) = EXIT_SUCCESS"
proof -
  let ?s = "state_of (parse_history ordered_run 1 ''2017-01-01T00:00:00Z'' ordered_log
                        (initial store0))"
  have o: "opened ordered_run store0 ''/var/log/apt/history.log'' ordered_log 1 1
             ''2017-01-01T00:00:00Z''"
    by code_simp
  have p: "parse_history ordered_run 1 ''2017-01-01T00:00:00Z'' ordered_log (initial store0) =
             Continue ?s"
    by code_simp
  have m: "fst (merge_installed_packages ordered_run (db ?s))"
    by code_simp
  from merge_once_at_end_of_file [OF o p] m
  have "length (filter is_merge (journal (extract_history ordered_run store0))) = 1"
    and "status (extract_history ordered_run store0) = EXIT_SUCCESS"
    by blast+
  with o p show ?thesis by (intro conjI)
qed

subsection \<open>C6: no Cursor\<close>

text \<open>
  C6. A run that finds no Cursor has to fail. The Cursor is fetched only after the history
  path has been read and the file has been mapped, and those two steps leave with
  \<open>return FALSE\<close>, which is \<open>EXIT_SUCCESS\<close>. So a run without Cursor whose history
  path is not configured processes no line and commits nothing, as the claim says, but it
  returns success and not the failure that the claim states: for every installation and
  every state, and in particular for the reference installation without history path on the
  empty store.
\<close>

theorem no_cursor_unopened_log_returns_success:
  "extract_history (E\<lparr>history_path := None, get_last_event := (\<lambda>w. None)\<rparr>) w =
     \<lparr>status = EXIT_SUCCESS, final_db = w, journal = [Stderr Path_not_set]\<rparr> \<and>
   get_last_event unconfigured_run empty_store = None \<and>
   extract_history unconfigured_run empty_store =
     \<lparr>status = EXIT_SUCCESS, final_db = empty_store, journal = [Stderr Path_not_set]\<rparr> \<and>
   EXIT_SUCCESS \<noteq> EXIT_FAILURE"
proof -
  have "extract_history (E\<lparr>history_path := None, get_last_event := (\<lambda>w. None)\<rparr>) w =
     \<lparr>status = EXIT_SUCCESS, final_db = w, journal = [Stderr Path_not_set]\<rparr>"
    by (simp add: extract_history_def FALSE_def EXIT_SUCCESS_def)
  moreover have "get_last_event unconfigured_run empty_store = None"
    by code_simp
  moreover have "extract_history unconfigured_run empty_store =
     \<lparr>status = EXIT_SUCCESS, final_db = empty_store, journal = [Stderr Path_not_set]\<rparr>"
    by code_simp
  moreover have "EXIT_SUCCESS \<noteq> EXIT_FAILURE"
    by (simp add: EXIT_SUCCESS_def EXIT_FAILURE_def)
  ultimately show ?thesis by (intro conjI)
qed

text \<open>
  Once the log is open, the run without Cursor does fail: when \<open>get_last_event\<close> fails or
  returns the identifier 0, the run returns \<open>EXIT_FAILURE\<close>, has made no call that commits
  a transaction, extracts packages or reconciles, has written nothing, and leaves the state
  as it was: no line of the log is processed.
\<close>

theorem no_cursor_opened_log_fails:
  assumes "history_path E = Some path" and "chunk_map E path = Some h"
    and "get_last_event E w = None \<or> (\<exists>epoch last_time. get_last_event E w = Some (0, epoch, last_time))"
  shows "extract_history E w = \<lparr>status = EXIT_FAILURE, final_db = w, journal = []\<rparr>"
  using assms by (auto simp: extract_history_def)

text \<open>The same on an empty store and on a store whose last transaction has identifier 0.\<close>

theorem no_cursor_opened_log_fails_example:
  "history_path ordered_run = Some ''/var/log/apt/history.log'' \<and>
   chunk_map ordered_run ''/var/log/apt/history.log'' = Some ordered_log \<and>
   get_last_event ordered_run empty_store = None \<and>
   get_last_event ordered_run unnumbered_store = Some (0, 1, ''2017-01-01T00:00:00Z'') \<and>
   extract_history ordered_run empty_store =
     \<lparr>status = EXIT_FAILURE, final_db = empty_store, journal = []\<rparr> \<and>
   extract_history ordered_run unnumbered_store =
     \<lparr>status = EXIT_FAILURE, final_db = unnumbered_store, journal = []\<rparr>"
proof -
  have p: "history_path ordered_run = Some ''/var/log/apt/history.log''"
    and m: "chunk_map ordered_run ''/var/log/apt/history.log'' = Some ordered_log"
    and n: "get_last_event ordered_run empty_store = None"
    and z: "get_last_event ordered_run unnumbered_store = Some (0, 1, ''2017-01-01T00:00:00Z'')"
    by code_simp+
  from n have "get_last_event ordered_run empty_store = None \<or>
    (\<exists>epoch last_time. get_last_event ordered_run empty_store = Some (0, epoch, last_time))"
    by (rule disjI1)
  note a = no_cursor_opened_log_fails [OF p m this]
  from z have "get_last_event ordered_run unnumbered_store = None \<or>
    (\<exists>epoch last_time. get_last_event ordered_run unnumbered_store = Some (0, epoch, last_time))"
    by blast
  note b = no_cursor_opened_log_fails [OF p m this]
  from p m n z a b show ?thesis by (intro conjI)
qed

subsection \<open>C7: a line without the delimiter\<close>

text \<open>
  C7. When the log has a non-empty line without a colon, the run returns
  \<open>EXIT_FAILURE\<close>. The state it leaves is the state after the lines before that line:
  what was committed by then stays committed. When the lines before it were processed without
  a jump to \<open>end\<close>, the journal is theirs followed by the report that the terminator
  symbol was not found; otherwise the run had already aborted at an earlier line.
\<close>

theorem missing_terminator_aborts:
  assumes "opened E w path h last_eid epoch last_time"
    and "fetchlines h = pre @ bad # post"
    and "bad \<noteq> []" and "CHR '':'' \<notin> set bad"
  shows "status (extract_history E w) = EXIT_FAILURE \<and>
         (case scan_lines E last_eid last_time pre (initial w) of
            Continue s \<Rightarrow>
              final_db (extract_history E w) = db s \<and>
              journal (extract_history E w) = trace s @ [Stderr Terminator_not_found]
          | Goto_end s \<Rightarrow>
              final_db (extract_history E w) = db s \<and>
              journal (extract_history E w) = trace s)"
proof -
  have "scan_line E last_eid last_time bad s =
          Goto_end (s\<lparr>trace := trace s @ [Stderr Terminator_not_found]\<rparr>)" for s
    using assms(3,4) by (simp add: scan_line_def extract_token_absent)
  then show ?thesis
    by (simp add: extract_history_opened [OF assms(1)] assms(2) scan_lines_append
             split: flow.splits)
qed

text \<open>
  C7 on the log with the line \<open>garbage\<close>: transaction 2, committed before that
  line, is in the store after the abort.
\<close>

theorem missing_terminator_aborts_witness:
  "opened broken_run store0 ''/var/log/apt/history.log'' broken_log 1 1 ''2017-01-01T00:00:00Z'' \<and>
   fetchlines broken_log =
     [''Start-Date: 2017-02-01T00:00:00Z'', ''Install: a (1)''] @
     ''garbage'' # [''Start-Date: 2017-03-01T00:00:00Z''] \<and>
   ''garbage'' \<noteq> [] \<and> CHR '':'' \<notin> set ''garbage'' \<and>
   status (extract_history broken_run store0) = EXIT_FAILURE \<and>
   journal (extract_history broken_run store0) =
     [Add_event ''2017-02-01T00:00:00Z'' 2, Extract_packages '' a (1)'' 2 SW_OP_INSTALL True,
      Stderr Terminator_not_found] \<and>
   transactions (final_db (extract_history broken_run store0)) =
     [(1, ''2017-01-01T00:00:00Z''), (2, ''2017-02-01T00:00:00Z'')]"
proof -
  have o: "opened broken_run store0 ''/var/log/apt/history.log'' broken_log 1 1
             ''2017-01-01T00:00:00Z''"
    by code_simp
  have f: "fetchlines broken_log =
     [''Start-Date: 2017-02-01T00:00:00Z'', ''Install: a (1)''] @
     ''garbage'' # [''Start-Date: 2017-03-01T00:00:00Z'']"
    by code_simp
  have g: "''garbage'' \<noteq> []" and t: "CHR '':'' \<notin> set ''garbage''"
    by simp_all
  have j: "journal (extract_history broken_run store0) =
     [Add_event ''2017-02-01T00:00:00Z'' 2, Extract_packages '' a (1)'' 2 SW_OP_INSTALL True,
      Stderr Terminator_not_found]"
    and d: "transactions (final_db (extract_history broken_run store0)) =
     [(1, ''2017-01-01T00:00:00Z''), (2, ''2017-02-01T00:00:00Z'')]"
    by code_simp+
  from missing_terminator_aborts [OF o f g t]
  have "status (extract_history broken_run store0) = EXIT_FAILURE" by (rule conjunct1)
  with o f g t j d show ?thesis by (intro conjI)
qed

subsection \<open>C8: Purge is Remove\<close>



subsection \<open>C9: a start marker without a timestamp\<close>

text \<open>
  C9. The timestamp of a start marker is extracted before \<open>skip\<close> is looked at: when
  \<open>extract_timestamp\<close> rejects the remainder, the iteration jumps to \<open>end\<close> in every
  state, skipping or not, and a run that reaches such a line returns \<open>EXIT_FAILURE\<close>
  with the state and the journal of the lines before it, without reconciliation.
\<close>

theorem unparsable_start_date_aborts:
  assumes "opened E w path h last_eid epoch last_time"
    and "fetchlines h = pre @ (''Start-Date:'' @ args) # post"
    and "extract_timestamp E args = None"
    and "scan_lines E last_eid last_time pre (initial w) = Continue s"
  shows "scan_line E last_eid last_time (''Start-Date:'' @ args) s = Goto_end s \<and>
         extract_history E w = \<lparr>status = EXIT_FAILURE, final_db = db s, journal = trace s\<rparr>"
proof -
  have "scan_line E last_eid last_time (''Start-Date:'' @ args) s = Goto_end s"
    using assms(3) by (simp add: scan_line_def match_def)
  then show ?thesis
    by (simp add: extract_history_opened [OF assms(1)] assms(2,4) scan_lines_append)
qed

text \<open>
  C9 on a log whose lines before the bad start marker are all at or before the Cursor: the
  run is still skipping when it aborts.
\<close>

theorem unparsable_start_date_aborts_witness:
  "opened undated_run store0 ''/var/log/apt/history.log'' undated_log 1 1 ''2017-01-01T00:00:00Z'' \<and>
   fetchlines undated_log =
     [''Start-Date: 2016-12-01T00:00:00Z'', ''Install: old (1)''] @
     (''Start-Date:'' @ '' yesterday'') # [''Install: older (1)''] \<and>
   extract_timestamp undated_run '' yesterday'' = None \<and>
   scan_lines undated_run 1 ''2017-01-01T00:00:00Z''
     [''Start-Date: 2016-12-01T00:00:00Z'', ''Install: old (1)''] (initial store0) =
     Continue (initial store0) \<and>
   skip (initial store0) \<and>
   extract_history undated_run store0 =
     \<lparr>status = EXIT_FAILURE, final_db = db (initial store0), journal = trace (initial store0)\<rparr>"
proof -
  have o: "opened undated_run store0 ''/var/log/apt/history.log'' undated_log 1 1
             ''2017-01-01T00:00:00Z''"
    by code_simp
  have f: "fetchlines undated_log =
     [''Start-Date: 2016-12-01T00:00:00Z'', ''Install: old (1)''] @
     (''Start-Date:'' @ '' yesterday'') # [''Install: older (1)'']"
    by code_simp
  have x: "extract_timestamp undated_run '' yesterday'' = None"
    by code_simp
  have p: "scan_lines undated_run 1 ''2017-01-01T00:00:00Z''
     [''Start-Date: 2016-12-01T00:00:00Z'', ''Install: old (1)''] (initial store0) =
     Continue (initial store0)"
    by code_simp
  have k: "skip (initial store0)" by (simp add: initial_def)
  from unparsable_start_date_aborts [OF o f x p]
  have "extract_history undated_run store0 =
     \<lparr>status = EXIT_FAILURE, final_db = db (initial store0), journal = trace (initial store0)\<rparr>"
    by (rule conjunct2)
  with o f x p k show ?thesis by (intro conjI)
qed

subsection \<open>C10: package events belong to a committed transaction\<close>

text \<open>
  C10. Whenever a run calls \<open>extract_packages\<close>, the identifier it passes is not 0
  and is the one that the latest \<open>add_event\<close> before the call returned, and no
  \<open>add_event\<close> before the call has failed.
\<close>

theorem packages_only_under_committed_transaction:
  assumes "journal (extract_history E w) = xs @ Extract_packages args i op ok # ys"
  shows "i \<noteq> 0 \<and> current 0 xs = i \<and> (\<exists>t. Add_event t i \<in> set xs) \<and>
         (\<forall>e \<in> set xs. \<not> failed_commit e)"
proof -
  from well_attached_journal [of E w] assms
  have a: "attached 0 (xs @ Extract_packages args i op ok # ys)"
    and b: "\<forall>e \<in> set (butlast (xs @ Extract_packages args i op ok # ys)). \<not> failed_commit e"
    by (simp_all add: well_attached_def)
  from a have c: "i \<noteq> 0" "current 0 xs = i" by (auto simp: attached_append)
  with current_origin [of 0 xs] have "\<exists>t. Add_event t i \<in> set xs" by auto
  moreover from b have "\<forall>e \<in> set xs. \<not> failed_commit e" by (simp add: butlast_append)
  ultimately show ?thesis using c by simp
qed

text \<open>
  C10 on the first package event of the run over the chronological log.
\<close>

theorem packages_only_under_committed_transaction_witness:
  "journal (extract_history ordered_run store0) =
     [Add_event ''2017-02-01T00:00:00Z'' 2] @
     Extract_packages '' a (1)'' 2 SW_OP_INSTALL True #
     [Add_event ''2017-03-01T00:00:00Z'' 3, Extract_packages '' a (1)'' 3 SW_OP_REMOVE True,
      Merge_installed_packages True] \<and>
   (2 :: 32 word) \<noteq> 0 \<and>
   current 0 [Add_event ''2017-02-01T00:00:00Z'' 2] = 2 \<and>
   (\<exists>t. Add_event t 2 \<in> set [Add_event ''2017-02-01T00:00:00Z'' 2])"
proof -
  have j: "journal (extract_history ordered_run store0) =
     [Add_event ''2017-02-01T00:00:00Z'' 2] @
     Extract_packages '' a (1)'' 2 SW_OP_INSTALL True #
     [Add_event ''2017-03-01T00:00:00Z'' 3, Extract_packages '' a (1)'' 3 SW_OP_REMOVE True,
      Merge_installed_packages True]"
    by code_simp
  from packages_only_under_committed_transaction [OF j]
  have "(2 :: 32 word) \<noteq> 0"
    and "current 0 [Add_event ''2017-02-01T00:00:00Z'' 2] = 2"
    and "\<exists>t. Add_event t 2 \<in> set [Add_event ''2017-02-01T00:00:00Z'' 2]"
    by blast+
  with j show ?thesis by (intro conjI)
qed

end
